theory Spec2Isabelle
  imports Main "HOL-Library.Monad_Syntax"
begin

section \<open>The DoorBird integration: data model\<close>

text \<open>
  The three modules of \<^verbatim>\<open>homeassistant/components/doorbird\<close> are embedded as
  functions over an explicit \<open>HomeAssistant\<close> state. Python values that cross the
  module's boundary untyped (JSON values of the info query, values of an event payload)
  are \<open>pyval\<close>; exceptions are values of \<open>exn\<close>, and a function that may raise
  returns \<open>exn + 'a\<close> with \<open>Inl\<close> for the raise.
\<close>

datatype pyval =
    PyNone
  | PyStr string
  | PyInt int
  | PyBool bool
  | PyList "pyval list"
  | PyDict "(string \<times> pyval) list"

text \<open>
  \<open>HTTPError\<close> carries \<^verbatim>\<open>err.response.status_code\<close>, the attribute the handler in
  \<^verbatim>\<open>async_setup_entry\<close> reads; the device client raises it for a response it received,
  whose status it is. \<open>OSError\<close> stands for every other exception derived from
  \<^verbatim>\<open>OSError\<close> (connection refused, timeout, DNS failure), with its message.
  \<open>OtherError\<close> is any exception that no handler of this module catches.
\<close>

datatype exn =
    HTTPError int
  | OSError string
  | ConfigEntryNotReady
  | KeyError string
  | IndexError
  | OtherError string

type_synonym 'a dict = "string \<rightharpoonup> 'a"

text \<open>\<^verbatim>\<open>d[k]\<close>, \<^verbatim>\<open>d.get(k, default)\<close> and \<^verbatim>\<open>d.get(k)\<close> of a Python dict.\<close>

definition getitem :: "'a dict \<Rightarrow> string \<Rightarrow> exn + 'a" where
  "getitem d k = (case d k of None \<Rightarrow> Inl (KeyError k) | Some v \<Rightarrow> Inr v)"

definition dict_get_default :: "pyval dict \<Rightarrow> string \<Rightarrow> pyval \<Rightarrow> pyval" where
  "dict_get_default d k dflt = (case d k of None \<Rightarrow> dflt | Some v \<Rightarrow> v)"

definition dict_get :: "pyval dict \<Rightarrow> string \<Rightarrow> pyval" where
  "dict_get d k = dict_get_default d k PyNone"

subsection \<open>The device client (doorbirdpy, an external library)\<close>

text \<open>
  A \<open>DoorBird\<close> client object is the arguments it was constructed from:
  \<^verbatim>\<open>DoorBird(device_ip, username, password, secure=secure, port=port)\<close>.
  What the library answers for a client is not code of this repository: it is the
  parameter \<open>lib\<close> of type \<open>doorbirdpy\<close> of every function that calls the client.
  \<open>ready\<close> returns the status tuple \<^verbatim>\<open>(bool, errorInfo)\<close> or raises, \<open>info\<close>
  returns the info map or raises, and the four URL getters are the client's properties.
\<close>

record DoorBird =
  ip :: string
  username :: string
  password :: string
  secure :: bool
  port :: int

record doorbirdpy =
  ready :: "DoorBird \<Rightarrow> exn + (bool \<times> int)"
  info :: "DoorBird \<Rightarrow> exn + pyval dict"
  live_video_url :: "DoorBird \<Rightarrow> string"
  live_image_url :: "DoorBird \<Rightarrow> string"
  rtsp_live_video_url :: "DoorBird \<Rightarrow> string"
  html5_viewer_url :: "DoorBird \<Rightarrow> string"

subsection \<open>Configuration entries\<close>

text \<open>
  \<^verbatim>\<open>entry.data\<close> holds the keys of \<^verbatim>\<open>DEVICE_SCHEMA\<close> that setup reads: the five it
  indexes (\<^verbatim>\<open>doorstation_config[CONF_HOST]\<close> and so on) are fields, and
  \<^verbatim>\<open>CONF_NAME\<close>, which it reads with \<^verbatim>\<open>.get\<close>, is optional.
\<close>

record DeviceConfig =
  CONF_HOST :: string
  CONF_USERNAME :: string
  CONF_PASSWORD :: string
  CONF_SSL :: bool
  CONF_PORT :: int
  CONF_NAME :: "string option"

record ConfigEntry =
  entry_id :: string
  entry_data :: DeviceConfig

text \<open>
  \<^verbatim>\<open>const.py\<close> is not among the sources. The values of its constants that the code
  uses as strings are the parameter \<open>c\<close> of every function that reads one.
  \<^verbatim>\<open>DOOR_STATION\<close> and \<^verbatim>\<open>DOOR_STATION_INFO\<close>, the two keys of the dict literal that
  setup stores, are the field names of \<open>RegistryEntry\<close> below.
\<close>

record doorbird_const =
  DOMAIN :: string
  DOOR_STATION_EVENT_ENTITY_IDS :: string
  PLATFORMS :: "string list"

text \<open>
  Modelled from the spec: \<^verbatim>\<open>homeassistant.const.ATTR_ENTITY_ID\<close> is not among the
  sources; the spec names the payload field \<^verbatim>\<open>entity_id\<close>.
\<close>

definition ATTR_ENTITY_ID :: string where
  "ATTR_ENTITY_ID = ''entity_id''"

subsection \<open>The session and the shared registry\<close>

text \<open>
  \<^verbatim>\<open>
  class ConfiguredDoorBird:
      def __init__(self, device, name):
          self._name = name
          self._device = device
  \<close>
\<close>

record ConfiguredDoorBird =
  name :: "string option"
  device :: DoorBird

text \<open>
  The dict \<^verbatim>\<open>{DOOR_STATION: doorstation, DOOR_STATION_INFO: info}\<close> that setup stores.
\<close>

record RegistryEntry =
  DOOR_STATION :: ConfiguredDoorBird
  DOOR_STATION_INFO :: "pyval dict"

text \<open>
  \<^verbatim>\<open>hass.data[DOMAIN]\<close> is one dict with two kinds of keys: configuration-entry ids,
  each mapped to a RegistryEntry, and the constant \<^verbatim>\<open>DOOR_STATION_EVENT_ENTITY_IDS\<close>,
  mapped to the EntityIdIndex. The model keeps the two apart: \<open>entries\<close> are the
  values under entry ids, \<open>event_entity_ids\<close> is the value under the constant (\<open>None\<close>
  when the key is not in the dict). An entry id is an identifier the host generates and
  never that constant.
\<close>

record domain_data =
  entries :: "RegistryEntry dict"
  event_entity_ids :: "pyval dict option"

text \<open>
  Everything the module does to the world outside its return value, in the order it
  happens: output, calls of the device client's monitor, calls delegated to the host and
  events fired on the bus. A write to the registry changes \<open>hass_data\<close> and is also
  noted in the trace (\<open>RegistryStore\<close>, \<open>RegistryPop\<close>, with the key written), so that
  its place among the other effects can be stated. The arguments of a log call are kept
  as passed; \<^verbatim>\<open>str(status[1])\<close> is the integer it renders.
\<close>

datatype effect =
    Print string
  | LogError string "pyval list"
  | StartMonitoring DoorBird
  | StopMonitoring DoorBird
  | RegistryStore string
  | RegistryPop string
  | ForwardEntrySetups string "string list"
  | UnloadPlatforms string "string list"
  | BusFire string "pyval dict"

text \<open>
  \<open>hass_data\<close> is \<^verbatim>\<open>hass.data.get(DOMAIN)\<close>: \<open>None\<close> when the key \<^verbatim>\<open>DOMAIN\<close> is not in
  \<^verbatim>\<open>hass.data\<close>. \<open>trace\<close> is the list of effects so far, oldest first.
\<close>

record HomeAssistant =
  hass_data :: "domain_data option"
  trace :: "effect list"

definition emit :: "effect \<Rightarrow> HomeAssistant \<Rightarrow> HomeAssistant" where
  "emit e hass = hass\<lparr>trace := trace hass @ [e]\<rparr>"

section \<open>Time stamps\<close>

text \<open>
  Modelled from the spec: \<^verbatim>\<open>homeassistant.util.dt\<close> is not among the sources; the spec
  says the payload's timestamp is the current UTC time in ISO-8601. \<^verbatim>\<open>utcnow()\<close> is a
  timezone-aware \<^verbatim>\<open>datetime\<close> at offset zero, and \<open>isoformat\<close> is that of Python's
  \<^verbatim>\<open>datetime\<close>: \<^verbatim>\<open>YYYY-MM-DDTHH:MM:SS+00:00\<close>, with \<^verbatim>\<open>.ffffff\<close> after the seconds when
  the microseconds are not zero. The current time is an input of the model.
\<close>

record datetime =
  year :: nat
  month :: nat
  day :: nat
  hour :: nat
  minute :: nat
  second :: nat
  microsecond :: nat

text \<open>The ranges Python's \<^verbatim>\<open>datetime\<close> enforces (the day only up to 31).\<close>

definition valid_datetime :: "datetime \<Rightarrow> bool" where
  "valid_datetime t =
     (1 \<le> year t \<and> year t \<le> 9999 \<and> 1 \<le> month t \<and> month t \<le> 12 \<and>
      1 \<le> day t \<and> day t \<le> 31 \<and> hour t < 24 \<and> minute t < 60 \<and> second t < 60 \<and>
      microsecond t < 1000000)"

definition digit :: "nat \<Rightarrow> char" where
  "digit d = char_of (48 + d)"

text \<open>The \<open>k\<close> low decimal digits of \<open>n\<close>: \<^verbatim>\<open>"%0kd" % n\<close> for \<open>n < 10 ^ k\<close>.\<close>

fun zpad :: "nat \<Rightarrow> nat \<Rightarrow> string" where
  "zpad 0 n = []"
| "zpad (Suc k) n = zpad k (n div 10) @ [digit (n mod 10)]"

definition isoformat :: "datetime \<Rightarrow> string" where
  "isoformat t =
     zpad 4 (year t) @ ''-'' @ zpad 2 (month t) @ ''-'' @ zpad 2 (day t) @ ''T'' @
     zpad 2 (hour t) @ '':'' @ zpad 2 (minute t) @ '':'' @ zpad 2 (second t) @
     (if microsecond t = 0 then [] else ''.'' @ zpad 6 (microsecond t)) @ ''+00:00''"

text \<open>
  What "a well-formed ISO-8601 UTC timestamp" means here: a reader of the extended
  format with offset \<^verbatim>\<open>+00:00\<close>, which accepts a string only when every field has its
  fixed number of digits, the separators are in place and the fields are in range, and
  then returns the time it denotes.
\<close>

definition is_digit :: "char \<Rightarrow> bool" where
  "is_digit ch = (48 \<le> (of_char ch :: nat) \<and> (of_char ch :: nat) \<le> 57)"

definition digit_val :: "char \<Rightarrow> nat" where
  "digit_val ch = of_char ch - 48"

definition read_num :: "nat \<Rightarrow> string \<Rightarrow> (nat \<times> string) option" where
  "read_num k s =
     (if k \<le> length s \<and> list_all is_digit (take k s)
      then Some (foldl (\<lambda>a ch. 10 * a + digit_val ch) 0 (take k s), drop k s)
      else None)"

fun expect :: "char \<Rightarrow> string \<Rightarrow> string option" where
  "expect ch [] = None"
| "expect ch (x # xs) = (if x = ch then Some xs else None)"

definition read_fraction :: "string \<Rightarrow> (nat \<times> string) option" where
  "read_fraction s =
     (case s of
        [] \<Rightarrow> Some (0, s)
      | x # xs \<Rightarrow> if x = CHR ''.'' then read_num 6 xs else Some (0, s))"

definition parse_iso8601_utc :: "string \<Rightarrow> datetime option" where
  "parse_iso8601_utc s0 = do {
     (y, s1) \<leftarrow> read_num 4 s0;
     s2 \<leftarrow> expect CHR ''-'' s1;
     (mo, s3) \<leftarrow> read_num 2 s2;
     s4 \<leftarrow> expect CHR ''-'' s3;
     (d, s5) \<leftarrow> read_num 2 s4;
     s6 \<leftarrow> expect CHR ''T'' s5;
     (h, s7) \<leftarrow> read_num 2 s6;
     s8 \<leftarrow> expect CHR '':'' s7;
     (mi, s9) \<leftarrow> read_num 2 s8;
     s10 \<leftarrow> expect CHR '':'' s9;
     (sec, s11) \<leftarrow> read_num 2 s10;
     (us, s12) \<leftarrow> read_fraction s11;
     (let t = \<lparr>year = y, month = mo, day = d, hour = h, minute = mi, second = sec,
               microsecond = us\<rparr>
      in if s12 = ''+00:00'' \<and> valid_datetime t then Some t else None)
   }"

section \<open>Setup, events and unload: the init module of the package\<close>

text \<open>
  \<^verbatim>\<open>
  def get_event_data(self):
      return {
          "timestamp": dt_util.utcnow().isoformat(),
          "live_video_url": self._device.live_video_url,
          "live_image_url": self._device.live_image_url,
          "rtsp_live_video_url": self._device.rtsp_live_video_url,
          "html5_viewer_url": self._device.html5_viewer_url,
      }
  \<close>
  \<open>utcnow\<close> is the value of \<^verbatim>\<open>dt_util.utcnow()\<close> at the call.
\<close>

definition get_event_data :: "doorbirdpy \<Rightarrow> datetime \<Rightarrow> ConfiguredDoorBird \<Rightarrow> pyval dict" where
  "get_event_data lib utcnow self =
     [''timestamp'' \<mapsto> PyStr (isoformat utcnow),
      ''live_video_url'' \<mapsto> PyStr (live_video_url lib (device self)),
      ''live_image_url'' \<mapsto> PyStr (live_image_url lib (device self)),
      ''rtsp_live_video_url'' \<mapsto> PyStr (rtsp_live_video_url lib (device self)),
      ''html5_viewer_url'' \<mapsto> PyStr (html5_viewer_url lib (device self))]"

text \<open>
  \<^verbatim>\<open>
  async def async_setup(hass, config):
      hass.data.setdefault(DOMAIN, {})
      return True
  \<close>
\<close>

definition async_setup :: "HomeAssistant \<Rightarrow> bool \<times> HomeAssistant" where
  "async_setup hass =
     (True,
      case hass_data hass of
        None \<Rightarrow> hass\<lparr>hass_data := Some \<lparr>entries = Map.empty, event_entity_ids = None\<rparr>\<rparr>
      | Some _ \<Rightarrow> hass)"

text \<open>
  \<^verbatim>\<open>
  def _init_doorbird_device(device):
      return device.ready(), device.info()
  \<close>
  The tuple's elements are evaluated left to right; the first raise ends the call.
\<close>

definition init_doorbird_device ::
  "doorbirdpy \<Rightarrow> DoorBird \<Rightarrow> exn + ((bool \<times> int) \<times> pyval dict)" where
  "init_doorbird_device lib dev =
     (case ready lib dev of
        Inl e \<Rightarrow> Inl e
      | Inr status \<Rightarrow>
          (case info lib dev of
             Inl e \<Rightarrow> Inl e
           | Inr dinfo \<Rightarrow> Inr (status, dinfo)))"

text \<open>
  \<open>async_setup_entry\<close>, lines 63 to 130. The result is what the coroutine returns
  (\<open>Inr\<close>) or raises (\<open>Inl\<close>), with the state it leaves. The \<^verbatim>\<open>try\<close> has two handlers:
  \<^verbatim>\<open>HTTPError\<close> (return \<^verbatim>\<open>False\<close> on 401, else raise \<^verbatim>\<open>ConfigEntryNotReady\<close>) and
  \<^verbatim>\<open>OSError\<close>; any other exception of the handshake propagates. After the handshake
  come, in this order, \<^verbatim>\<open>start_monitoring\<close>, the store into
  \<^verbatim>\<open>hass.data[DOMAIN][config_entry_id]\<close> and the forwarding to the platforms.
\<close>

definition async_setup_entry ::
  "doorbird_const \<Rightarrow> doorbirdpy \<Rightarrow> HomeAssistant \<Rightarrow> ConfigEntry \<Rightarrow> (exn + bool) \<times> HomeAssistant" where
  "async_setup_entry c lib hass entry =
     (let doorstation_config = entry_data entry;
          config_entry_id = entry_id entry;
          device_ip = CONF_HOST doorstation_config;
          usern = CONF_USERNAME doorstation_config;
          passw = CONF_PASSWORD doorstation_config;
          sec = CONF_SSL doorstation_config;
          prt = CONF_PORT doorstation_config;
          dev = \<lparr>ip = device_ip, username = usern, password = passw, secure = sec, port = prt\<rparr>
      in case init_doorbird_device lib dev of
           Inl (HTTPError status_code) \<Rightarrow>
             if status_code = 401
             then (Inr False,
                   emit (LogError ''Authorization rejected by DoorBird for %s@%s''
                           [PyStr usern, PyStr device_ip]) hass)
             else (Inl ConfigEntryNotReady, hass)
         | Inl (OSError oserr) \<Rightarrow>
             (Inl ConfigEntryNotReady,
              emit (LogError ''Failed to setup doorbird at %s: %s''
                      [PyStr device_ip, PyStr oserr]) hass)
         | Inl e \<Rightarrow> (Inl e, hass)
         | Inr (status, dinfo) \<Rightarrow>
             if \<not> fst status
             then (Inl ConfigEntryNotReady,
                   emit (LogError ''Could not connect to DoorBird as %s@%s: Error %s''
                           [PyStr usern, PyStr device_ip, PyInt (snd status)]) hass)
             else
               (let nm = CONF_NAME doorstation_config;
                    doorstation = \<lparr>name = nm, device = dev\<rparr>;
                    hass1 = emit (StartMonitoring dev) hass
                in case hass_data hass1 of
                     None \<Rightarrow> (Inl (KeyError (DOMAIN c)), hass1)
                   | Some dd \<Rightarrow>
                       (let reg = \<lparr>DOOR_STATION = doorstation, DOOR_STATION_INFO = dinfo\<rparr>;
                            hass2 = emit (RegistryStore config_entry_id)
                                      (hass1\<lparr>hass_data :=
                                         Some (dd\<lparr>entries := (entries dd)(config_entry_id \<mapsto> reg)\<rparr>)\<rparr>);
                            hass3 = emit (ForwardEntrySetups config_entry_id (PLATFORMS c)) hass2
                        in (Inr True, hass3))))"

text \<open>
  The closure \<open>async_notify_event\<close> of setup, lines 101 to 107, over the \<open>doorstation\<close>
  it captures:
  \<^verbatim>\<open>
  async def async_notify_event(event):
      print("FIRING EVENT: " + event)
      event_data = doorstation.get_event_data()
      event_data[ATTR_ENTITY_ID] = hass.data[DOMAIN][
          DOOR_STATION_EVENT_ENTITY_IDS
      ].get(event)
      hass.bus.async_fire(f"{DOMAIN}_{event}", event_data)
  \<close>
\<close>

definition async_notify_event ::
  "doorbird_const \<Rightarrow> doorbirdpy \<Rightarrow> datetime \<Rightarrow> ConfiguredDoorBird \<Rightarrow> HomeAssistant \<Rightarrow> string
     \<Rightarrow> (exn + unit) \<times> HomeAssistant" where
  "async_notify_event c lib utcnow doorstation hass event =
     (let hass1 = emit (Print (''FIRING EVENT: '' @ event)) hass;
          event_data0 = get_event_data lib utcnow doorstation
      in case hass_data hass1 of
           None \<Rightarrow> (Inl (KeyError (DOMAIN c)), hass1)
         | Some dd \<Rightarrow>
             (case event_entity_ids dd of
                None \<Rightarrow> (Inl (KeyError (DOOR_STATION_EVENT_ENTITY_IDS c)), hass1)
              | Some ids \<Rightarrow>
                  (let event_data1 = event_data0(ATTR_ENTITY_ID \<mapsto> dict_get ids event)
                   in (Inr (), emit (BusFire (DOMAIN c @ ''_'' @ event) event_data1) hass1))))"

text \<open>
  \<open>async_unload_entry\<close>, lines 137 to 146. \<open>unload_platforms\<close> is what the host's
  \<^verbatim>\<open>async_unload_platforms(entry, PLATFORMS)\<close> answers.
  \<^verbatim>\<open>
  await hass.data[DOMAIN][entry.entry_id][DOOR_STATION].device.stop_monitoring()
  unload_ok = await hass.config_entries.async_unload_platforms(entry, PLATFORMS)
  if unload_ok:
      hass.data[DOMAIN].pop(entry.entry_id)
  return unload_ok
  \<close>
\<close>

definition async_unload_entry ::
  "doorbird_const \<Rightarrow> (ConfigEntry \<Rightarrow> string list \<Rightarrow> bool) \<Rightarrow> HomeAssistant \<Rightarrow> ConfigEntry
     \<Rightarrow> (exn + bool) \<times> HomeAssistant" where
  "async_unload_entry c unload_platforms hass entry =
     (case hass_data hass of
        None \<Rightarrow> (Inl (KeyError (DOMAIN c)), hass)
      | Some dd \<Rightarrow>
          (case entries dd (entry_id entry) of
             None \<Rightarrow> (Inl (KeyError (entry_id entry)), hass)
           | Some reg \<Rightarrow>
               (let hass1 = emit (StopMonitoring (device (DOOR_STATION reg))) hass;
                    unload_ok = unload_platforms entry (PLATFORMS c);
                    hass2 = emit (UnloadPlatforms (entry_id entry) (PLATFORMS c)) hass1
                in if unload_ok
                   then (case hass_data hass2 of
                           None \<Rightarrow> (Inl (KeyError (DOMAIN c)), hass2)
                         | Some dd2 \<Rightarrow>
                             (case entries dd2 (entry_id entry) of
                                None \<Rightarrow> (Inl (KeyError (entry_id entry)), hass2)
                              | Some _ \<Rightarrow>
                                  (Inr unload_ok,
                                   emit (RegistryPop (entry_id entry))
                                     (hass2\<lparr>hass_data :=
                                        Some (dd2\<lparr>entries := (entries dd2)(entry_id entry := None)\<rparr>)\<rparr>))))
                   else (Inr unload_ok, hass2))))"

section \<open>util.py\<close>

text \<open>
  \<^verbatim>\<open>
  def get_mac_address_from_doorstation_info(doorstation_info):
      if "PRIMARY_MAC_ADDR" in doorstation_info:
          return doorstation_info["PRIMARY_MAC_ADDR"]
      return doorstation_info["WIFI_MAC_ADDR"]
  \<close>
\<close>

definition get_mac_address_from_doorstation_info :: "pyval dict \<Rightarrow> exn + pyval" where
  "get_mac_address_from_doorstation_info doorstation_info =
     (if ''PRIMARY_MAC_ADDR'' \<in> dom doorstation_info
      then getitem doorstation_info ''PRIMARY_MAC_ADDR''
      else getitem doorstation_info ''WIFI_MAC_ADDR'')"

section \<open>logbook.py\<close>

record Event =
  event_type :: string
  event_data :: "pyval dict"

text \<open>
  The dict the describer returns; its keys are the three \<^verbatim>\<open>LOGBOOK_ENTRY_*\<close> constants
  of the logbook component.
\<close>

record logbook_entry =
  LOGBOOK_ENTRY_NAME :: string
  LOGBOOK_ENTRY_MESSAGE :: string
  LOGBOOK_ENTRY_ENTITY_ID :: pyval

text \<open>
  \<^verbatim>\<open>s.split("_", 1)\<close>: at most one split, at the first underscore; a string without
  one comes back whole, as the only element.
\<close>

definition split_underscore_1 :: "string \<Rightarrow> string list" where
  "split_underscore_1 s =
     (case dropWhile (\<lambda>ch. ch \<noteq> CHR ''_'') s of
        [] \<Rightarrow> [s]
      | _ # rest \<Rightarrow> [takeWhile (\<lambda>ch. ch \<noteq> CHR ''_'') s, rest])"

text \<open>
  \<^verbatim>\<open>
  def async_describe_logbook_event(event):
      doorbird_event = event.event_type.split("_", 1)[1]
      return {
          LOGBOOK_ENTRY_NAME: "Doorbird",
          LOGBOOK_ENTRY_MESSAGE: f"Event {event.event_type} was fired",
          LOGBOOK_ENTRY_ENTITY_ID: hass.data[DOMAIN][
              DOOR_STATION_EVENT_ENTITY_IDS
          ].get(doorbird_event, event.data.get(ATTR_ENTITY_ID)),
      }
  \<close>
\<close>

definition async_describe_logbook_event ::
  "doorbird_const \<Rightarrow> HomeAssistant \<Rightarrow> Event \<Rightarrow> exn + logbook_entry" where
  "async_describe_logbook_event c hass event =
     (case split_underscore_1 (event_type event) of
        [] \<Rightarrow> Inl IndexError
      | [_] \<Rightarrow> Inl IndexError
      | _ # doorbird_event # _ \<Rightarrow>
          (case hass_data hass of
             None \<Rightarrow> Inl (KeyError (DOMAIN c))
           | Some dd \<Rightarrow>
               (case event_entity_ids dd of
                  None \<Rightarrow> Inl (KeyError (DOOR_STATION_EVENT_ENTITY_IDS c))
                | Some ids \<Rightarrow>
                    Inr \<lparr>LOGBOOK_ENTRY_NAME = ''Doorbird'',
                         LOGBOOK_ENTRY_MESSAGE = ''Event '' @ event_type event @ '' was fired'',
                         LOGBOOK_ENTRY_ENTITY_ID =
                           dict_get_default ids doorbird_event
                             (dict_get (event_data event) ATTR_ENTITY_ID)\<rparr>)))"

section \<open>Observations and examples\<close>

text \<open>The effects that a run from \<open>hass\<close> to \<open>hass'\<close> added to the trace.\<close>

definition new_effects :: "HomeAssistant \<Rightarrow> HomeAssistant \<Rightarrow> effect list" where
  "new_effects hass hass' = drop (length (trace hass)) (trace hass')"

text \<open>
  The value under key \<open>k\<close> of the payload of an event fired on the bus: \<open>None\<close> when the
  payload has no such key (and for an effect that is not a fired event).
\<close>

fun payload_field :: "string \<Rightarrow> effect \<Rightarrow> pyval option" where
  "payload_field k (BusFire topic payload) = payload k"
| "payload_field k _ = None"

text \<open>The client that \<open>async_setup_entry\<close> constructs from an entry's data.\<close>

abbreviation entry_device :: "ConfigEntry \<Rightarrow> DoorBird" where
  "entry_device entry \<equiv>
     \<lparr>ip = CONF_HOST (entry_data entry), username = CONF_USERNAME (entry_data entry),
      password = CONF_PASSWORD (entry_data entry), secure = CONF_SSL (entry_data entry),
      port = CONF_PORT (entry_data entry)\<rparr>"

text \<open>
  A door station at 192.168.1.5 and the answers of its client in five situations:
  reachable and ready, credentials rejected, connection refused, server error, and
  reachable but not ready.
\<close>

definition example_const :: doorbird_const where
  "example_const =
     \<lparr>DOMAIN = ''doorbird'', DOOR_STATION_EVENT_ENTITY_IDS = ''door_station_event_entity_ids'',
      PLATFORMS = [''camera'']\<rparr>"

definition example_entry :: ConfigEntry where
  "example_entry =
     \<lparr>entry_id = ''a1b2c3'',
      entry_data = \<lparr>CONF_HOST = ''192.168.1.5'', CONF_USERNAME = ''ghabcd0001'',
                    CONF_PASSWORD = ''secret'', CONF_SSL = False, CONF_PORT = 80,
                    CONF_NAME = Some ''Front door''\<rparr>\<rparr>"

definition example_info :: "pyval dict" where
  "example_info = [''WIFI_MAC_ADDR'' \<mapsto> PyStr ''1CCAE3700001'']"

definition example_lib :: doorbirdpy where
  "example_lib =
     \<lparr>ready = (\<lambda>dev. Inr (True, 200)),
      info = (\<lambda>dev. Inr example_info),
      live_video_url = (\<lambda>dev. ''http://'' @ ip dev @ ''/bha-api/video.cgi''),
      live_image_url = (\<lambda>dev. ''http://'' @ ip dev @ ''/bha-api/image.cgi''),
      rtsp_live_video_url = (\<lambda>dev. ''rtsp://'' @ ip dev @ ''/mpeg/media.amp''),
      html5_viewer_url = (\<lambda>dev. ''http://'' @ ip dev @ ''/bha-api/view.html'')\<rparr>"

definition example_lib_unauthorized :: doorbirdpy where
  "example_lib_unauthorized =
     example_lib\<lparr>ready := (\<lambda>dev. Inr (False, 401)), info := (\<lambda>dev. Inl (HTTPError 401))\<rparr>"

definition example_lib_refused :: doorbirdpy where
  "example_lib_refused = example_lib\<lparr>ready := (\<lambda>dev. Inl (OSError ''Connection refused''))\<rparr>"

definition example_lib_unavailable :: doorbirdpy where
  "example_lib_unavailable =
     example_lib\<lparr>ready := (\<lambda>dev. Inr (False, 503)), info := (\<lambda>dev. Inl (HTTPError 503))\<rparr>"

definition example_lib_not_ready :: doorbirdpy where
  "example_lib_not_ready = example_lib\<lparr>ready := (\<lambda>dev. Inr (False, 200))\<rparr>"

text \<open>An EntityIdIndex that maps the motion sensor's events and not the doorbell's.\<close>

definition example_ids :: "pyval dict" where
  "example_ids = [''motionsensor'' \<mapsto> PyStr ''binary_sensor.front_door_motion'']"

definition example_domain_data :: domain_data where
  "example_domain_data = \<lparr>entries = Map.empty, event_entity_ids = Some example_ids\<rparr>"

definition example_hass :: HomeAssistant where
  "example_hass = \<lparr>hass_data = Some example_domain_data, trace = []\<rparr>"

definition example_session :: ConfiguredDoorBird where
  "example_session =
     \<lparr>name = Some ''Front door'',
      device = \<lparr>ip = ''192.168.1.5'', username = ''ghabcd0001'', password = ''secret'',
                secure = False, port = 80\<rparr>\<rparr>"

definition example_registry_entry :: RegistryEntry where
  "example_registry_entry = \<lparr>DOOR_STATION = example_session, DOOR_STATION_INFO = example_info\<rparr>"

definition example_loaded_data :: domain_data where
  "example_loaded_data =
     \<lparr>entries = [''a1b2c3'' \<mapsto> example_registry_entry], event_entity_ids = Some example_ids\<rparr>"

definition example_loaded_hass :: HomeAssistant where
  "example_loaded_hass = \<lparr>hass_data = Some example_loaded_data, trace = []\<rparr>"

definition example_now :: datetime where
  "example_now =
     \<lparr>year = 2026, month = 11, day = 4, hour = 12, minute = 30, second = 5, microsecond = 0\<rparr>"

definition example_unload_ok :: "ConfigEntry \<Rightarrow> string list \<Rightarrow> bool" where
  "example_unload_ok entry platforms = True"

definition example_unload_failed :: "ConfigEntry \<Rightarrow> string list \<Rightarrow> bool" where
  "example_unload_failed entry platforms = False"

section \<open>Basic facts\<close>

lemma hass_data_emit: "hass_data (emit e hass) = hass_data hass"
  by (simp add: emit_def)

lemma trace_emit: "trace (emit e hass) = trace hass @ [e]"
  by (simp add: emit_def)

lemma new_effects_emit: "new_effects hass (emit e hass) = [e]"
  by (simp add: new_effects_def emit_def)

lemma new_effects_refl: "new_effects hass hass = []"
  by (simp add: new_effects_def)

text \<open>After \<open>async_setup\<close> the registry exists, and one that existed is left as it was.\<close>

lemma async_setup_creates_registry:
  "fst (async_setup hass) \<and> hass_data (snd (async_setup hass)) \<noteq> None \<and>
   (hass_data hass \<noteq> None \<longrightarrow> snd (async_setup hass) = hass)"
  by (simp add: async_setup_def split: option.splits)

text \<open>
  The handshake raises what the first failing query raises; it returns the status and
  the info when both queries return.
\<close>

lemma init_doorbird_device_returns:
  "init_doorbird_device lib dev = Inr (status, dinfo) \<longleftrightarrow>
     ready lib dev = Inr status \<and> info lib dev = Inr dinfo"
  by (auto simp: init_doorbird_device_def split: sum.splits)

subsection \<open>Time stamps are read back\<close>

lemma digit_is_digit: "d < 10 \<Longrightarrow> is_digit (digit d)"
  by (simp add: digit_def is_digit_def)

lemma digit_val_digit: "d < 10 \<Longrightarrow> digit_val (digit d) = d"
  by (simp add: digit_def digit_val_def)

lemma length_zpad: "length (zpad k n) = k"
  by (induction k arbitrary: n) auto

lemma zpad_digits: "list_all is_digit (zpad k n)"
  by (induction k arbitrary: n) (auto simp: digit_is_digit)

lemma zpad_value: "n < 10 ^ k \<Longrightarrow> foldl (\<lambda>a ch. 10 * a + digit_val ch) 0 (zpad k n) = n"
proof (induction k arbitrary: n)
  case 0
  then show ?case by simp
next
  case (Suc k)
  from Suc.prems have "n div 10 < 10 ^ k"
    by (simp add: less_mult_imp_div_less mult.commute)
  with Suc.IH have "foldl (\<lambda>a ch. 10 * a + digit_val ch) 0 (zpad k (n div 10)) = n div 10"
    by blast
  then show ?case by (simp add: digit_val_digit)
qed

lemma read_num_zpad: "n < 10 ^ k \<Longrightarrow> read_num k (zpad k n @ rest) = Some (n, rest)"
  by (simp add: read_num_def length_zpad zpad_digits zpad_value)

lemma read_fraction_isoformat:
  "us < 10 ^ 6 \<Longrightarrow>
   read_fraction ((if us = 0 then [] else CHR ''.'' # zpad 6 us) @ ''+00:00'') = Some (us, ''+00:00'')"
  by (simp add: read_fraction_def read_num_zpad)

lemma parse_isoformat:
  assumes "valid_datetime t"
  shows "parse_iso8601_utc (isoformat t) = Some t"
proof -
  from assms have r: "year t < 10 ^ 4" "month t < 10 ^ 2" "day t < 10 ^ 2" "hour t < 10 ^ 2"
      "minute t < 10 ^ 2" "second t < 10 ^ 2" "microsecond t < 10 ^ 6"
    by (simp_all add: valid_datetime_def)
  have "parse_iso8601_utc (isoformat t) =
          (let t' = \<lparr>year = year t, month = month t, day = day t, hour = hour t,
                     minute = minute t, second = second t, microsecond = microsecond t\<rparr>
           in if valid_datetime t' then Some t' else None)"
    unfolding parse_iso8601_utc_def isoformat_def
    by (simp only: read_num_zpad [OF r(1)] read_num_zpad [OF r(2)] read_num_zpad [OF r(3)]
          read_num_zpad [OF r(4)] read_num_zpad [OF r(5)] read_num_zpad [OF r(6)]
          read_fraction_isoformat [OF r(7)] append_Cons append_Nil expect.simps
          Option.bind.simps prod.case if_True simp_thms)
  also have "\<lparr>year = year t, month = month t, day = day t, hour = hour t,
               minute = minute t, second = second t, microsecond = microsecond t\<rparr> = t"
    by simp
  finally show ?thesis using assms by (simp add: Let_def)
qed

lemma zpad_numeral: "zpad (numeral k) n = zpad (pred_numeral k) (n div 10) @ [digit (n mod 10)]"
proof -
  have "numeral k = Suc (pred_numeral k)"
    by (rule numeral_eq_Suc)
  then show ?thesis
    by (simp only: zpad.simps)
qed

lemma isoformat_example: "isoformat example_now = ''2026-11-04T12:30:05+00:00''"
  by (simp add: isoformat_def example_now_def zpad_numeral digit_def char_of_eq_iff)

lemma isoformat_example_microsecond:
  "isoformat (example_now\<lparr>microsecond := 1500\<rparr>) = ''2026-11-04T12:30:05.001500+00:00''"
  by (simp add: isoformat_def example_now_def zpad_numeral digit_def char_of_eq_iff)

subsection \<open>What firing an event does\<close>

lemma get_event_data_fields:
  "get_event_data lib utcnow ds ''timestamp'' = Some (PyStr (isoformat utcnow))"
  "get_event_data lib utcnow ds ''live_video_url'' = Some (PyStr (live_video_url lib (device ds)))"
  "get_event_data lib utcnow ds ''live_image_url'' = Some (PyStr (live_image_url lib (device ds)))"
  "get_event_data lib utcnow ds ''rtsp_live_video_url'' = Some (PyStr (rtsp_live_video_url lib (device ds)))"
  "get_event_data lib utcnow ds ''html5_viewer_url'' = Some (PyStr (html5_viewer_url lib (device ds)))"
  "get_event_data lib utcnow ds ATTR_ENTITY_ID = None"
  by (simp_all add: get_event_data_def ATTR_ENTITY_ID_def)

lemma async_notify_event_fires:
  assumes "hass_data hass = Some dd" and "event_entity_ids dd = Some ids"
  shows "async_notify_event c lib utcnow ds hass ev =
           (Inr (), emit (BusFire (DOMAIN c @ ''_'' @ ev)
                            ((get_event_data lib utcnow ds)(ATTR_ENTITY_ID \<mapsto> dict_get ids ev)))
                      (emit (Print (''FIRING EVENT: '' @ ev)) hass))"
  using assms by (simp add: async_notify_event_def Let_def hass_data_emit)

text \<open>Without the index the callback raises after its output and fires nothing.\<close>

lemma async_notify_event_without_index:
  assumes "hass_data hass = None \<or> (\<exists>dd. hass_data hass = Some dd \<and> event_entity_ids dd = None)"
  shows "\<exists>k. async_notify_event c lib utcnow ds hass ev =
           (Inl (KeyError k), emit (Print (''FIRING EVENT: '' @ ev)) hass)"
  using assms by (auto simp: async_notify_event_def Let_def hass_data_emit)


text \<open>A topic without an underscore has no second part: the describer raises.\<close>

lemma describe_without_underscore_raises:
  assumes "CHR ''_'' \<notin> set topic"
  shows "async_describe_logbook_event c hass \<lparr>event_type = topic, event_data = payload\<rparr> = Inl IndexError"
proof -
  from assms have none: "dropWhile (\<lambda>ch. ch \<noteq> CHR ''_'') topic = []"
    by (induction topic) auto
  show ?thesis
    by (simp add: async_describe_logbook_event_def split_underscore_1_def none
          del: dropWhile_eq_Nil_conv)
qed

subsection \<open>Where setup can fail\<close>

text \<open>
  Once \<open>async_setup\<close> has run, setup fails only at the handshake: it raised, or it
  reported not-ready.
\<close>

lemma setup_fails_only_at_handshake:
  assumes "hass_data hass \<noteq> None"
      and "fst (async_setup_entry c lib hass entry) \<noteq> Inr True"
  shows "(\<exists>e. init_doorbird_device lib (entry_device entry) = Inl e) \<or>
         (\<exists>status dinfo. init_doorbird_device lib (entry_device entry) = Inr (status, dinfo) \<and>
            \<not> fst status)"
proof (cases "init_doorbird_device lib (entry_device entry)")
  case (Inl e)
  then show ?thesis by blast
next
  case (Inr r)
  obtain status dinfo where r: "r = (status, dinfo)"
    by (cases r)
  show ?thesis
  proof (cases "fst status")
    case True
    with assms Inr r have False
      by (auto simp: async_setup_entry_def Let_def hass_data_emit)
    then show ?thesis ..
  next
    case False
    with Inr r show ?thesis by blast
  qed
qed

section \<open>Properties of setup\<close>

text \<open>
  Claim C1. If the handshake performed during setup raises an HTTP error with status
  401 (unauthorized), setup signals permanent failure: it returns \<^verbatim>\<open>False\<close>, which
  is not the retryable \<^verbatim>\<open>ConfigEntryNotReady\<close>, and no RegistryEntry is created under
  the configuration-entry id: the registry is as it was, and nothing was stored.
\<close>

theorem setup_unauthorized_is_permanent_failure:
  assumes "init_doorbird_device lib (entry_device entry) = Inl (HTTPError 401)"
  shows "fst (async_setup_entry c lib hass entry) = Inr False \<and>
         fst (async_setup_entry c lib hass entry) \<noteq> Inl ConfigEntryNotReady \<and>
         hass_data (snd (async_setup_entry c lib hass entry)) = hass_data hass \<and>
         RegistryStore (entry_id entry) \<notin> set (new_effects hass (snd (async_setup_entry c lib hass entry)))"
  using assms by (simp add: async_setup_entry_def Let_def hass_data_emit new_effects_emit)

theorem setup_unauthorized_is_permanent_failure_witness:
  "init_doorbird_device example_lib_unauthorized (entry_device example_entry) = Inl (HTTPError 401) \<and>
   async_setup_entry example_const example_lib_unauthorized example_hass example_entry =
     (Inr False,
      example_hass\<lparr>trace := [LogError ''Authorization rejected by DoorBird for %s@%s''
                                 [PyStr ''ghabcd0001'', PyStr ''192.168.1.5'']]\<rparr>)"
proof -
  have h: "init_doorbird_device example_lib_unauthorized (entry_device example_entry) = Inl (HTTPError 401)"
    by (simp add: init_doorbird_device_def example_lib_unauthorized_def example_lib_def)
  from setup_unauthorized_is_permanent_failure [OF h, of example_const example_hass] h
  show ?thesis
    by (simp add: async_setup_entry_def Let_def emit_def example_entry_def example_hass_def)
qed

text \<open>
  Claim C2, as the code has it. If the handshake fails with a transport error (an
  \<^verbatim>\<open>OSError\<close>, such as connection refused), or with an HTTP error of any status other
  than 401, or the readiness query succeeds and reports not-ready (the first element of
  the status tuple is false) and the info query that follows it returns as well, setup
  signals retryable failure: it raises \<^verbatim>\<open>ConfigEntryNotReady\<close>, which is not the
  permanent-failure result, and no RegistryEntry is created.
\<close>

theorem setup_retryable_failure:
  assumes "(\<exists>msg. init_doorbird_device lib (entry_device entry) = Inl (OSError msg)) \<or>
           (\<exists>code. code \<noteq> 401 \<and> init_doorbird_device lib (entry_device entry) = Inl (HTTPError code)) \<or>
           (\<exists>status dinfo. ready lib (entry_device entry) = Inr status \<and> \<not> fst status \<and>
              info lib (entry_device entry) = Inr dinfo)"
  shows "fst (async_setup_entry c lib hass entry) = Inl ConfigEntryNotReady \<and>
         fst (async_setup_entry c lib hass entry) \<noteq> Inr False \<and>
         hass_data (snd (async_setup_entry c lib hass entry)) = hass_data hass \<and>
         RegistryStore (entry_id entry) \<notin> set (new_effects hass (snd (async_setup_entry c lib hass entry)))"
proof -
  from assms have
    "(\<exists>msg. init_doorbird_device lib (entry_device entry) = Inl (OSError msg)) \<or>
     (\<exists>code. code \<noteq> 401 \<and> init_doorbird_device lib (entry_device entry) = Inl (HTTPError code)) \<or>
     (\<exists>status dinfo. init_doorbird_device lib (entry_device entry) = Inr (status, dinfo) \<and>
        \<not> fst status)"
    by (simp only: init_doorbird_device_returns) blast
  then show ?thesis
    by (auto simp: async_setup_entry_def Let_def hass_data_emit new_effects_emit new_effects_refl)
qed

theorem setup_retryable_failure_witness:
  "fst (async_setup_entry example_const example_lib_refused example_hass example_entry)
     = Inl ConfigEntryNotReady \<and>
   hass_data (snd (async_setup_entry example_const example_lib_refused example_hass example_entry))
     = hass_data example_hass \<and>
   fst (async_setup_entry example_const example_lib_unavailable example_hass example_entry)
     = Inl ConfigEntryNotReady \<and>
   hass_data (snd (async_setup_entry example_const example_lib_unavailable example_hass example_entry))
     = hass_data example_hass \<and>
   fst (async_setup_entry example_const example_lib_not_ready example_hass example_entry)
     = Inl ConfigEntryNotReady \<and>
   hass_data (snd (async_setup_entry example_const example_lib_not_ready example_hass example_entry))
     = hass_data example_hass"
proof -
  have refused: "init_doorbird_device example_lib_refused (entry_device example_entry)
                   = Inl (OSError ''Connection refused'')"
    by (simp add: init_doorbird_device_def example_lib_refused_def example_lib_def)
  have unavailable: "init_doorbird_device example_lib_unavailable (entry_device example_entry)
                       = Inl (HTTPError 503)"
    by (simp add: init_doorbird_device_def example_lib_unavailable_def example_lib_def)
  have not_ready: "ready example_lib_not_ready (entry_device example_entry) = Inr (False, 200)"
    "info example_lib_not_ready (entry_device example_entry) = Inr example_info"
    by (simp_all add: example_lib_not_ready_def example_lib_def)
  from refused unavailable not_ready
    setup_retryable_failure [of example_lib_refused example_entry example_const example_hass]
    setup_retryable_failure [of example_lib_unavailable example_entry example_const example_hass]
    setup_retryable_failure [of example_lib_not_ready example_entry example_const example_hass]
  show ?thesis by simp
qed

text \<open>
  The claim as stated fails: the readiness query of the example client with rejected
  credentials succeeds and reports not-ready, the info query after it raises the HTTP
  error 401 inside the same \<^verbatim>\<open>try\<close>, and setup returns \<^verbatim>\<open>False\<close>, the permanent
  failure, where the claim has it raise \<^verbatim>\<open>ConfigEntryNotReady\<close>.
\<close>

theorem setup_not_ready_unauthorized_counterexample:
  "ready example_lib_unauthorized (entry_device example_entry) = Inr (False, 401) \<and>
   fst (async_setup_entry example_const example_lib_unauthorized example_hass example_entry)
     = Inr False \<and>
   fst (async_setup_entry example_const example_lib_unauthorized example_hass example_entry)
     \<noteq> Inl ConfigEntryNotReady"
  by (simp add: async_setup_entry_def init_doorbird_device_def Let_def
        example_lib_unauthorized_def example_lib_def)

text \<open>
  Claim C3. For every setup run in which the handshake succeeds and reports ready (on a
  host where \<open>async_setup\<close> has created the registry), setup returns \<^verbatim>\<open>True\<close> and
  stores exactly one RegistryEntry, under the configuration-entry id: the registry
  afterwards is the one before with that one key written, the write happens once, after
  \<^verbatim>\<open>start_monitoring\<close>, and the entry holds exactly the session made of the device
  client and the optional display name, and the info that the info query returned.
\<close>

theorem setup_success_stores_one_entry:
  assumes "hass_data hass = Some dd"
      and "ready lib (entry_device entry) = Inr status"
      and "fst status"
      and "info lib (entry_device entry) = Inr dinfo"
  shows "\<exists>hass'. async_setup_entry c lib hass entry = (Inr True, hass') \<and>
           hass_data hass' =
             Some (dd\<lparr>entries := (entries dd)(entry_id entry \<mapsto>
                     \<lparr>DOOR_STATION = \<lparr>name = CONF_NAME (entry_data entry), device = entry_device entry\<rparr>,
                      DOOR_STATION_INFO = dinfo\<rparr>)\<rparr>) \<and>
           new_effects hass hass' =
             [StartMonitoring (entry_device entry), RegistryStore (entry_id entry),
              ForwardEntrySetups (entry_id entry) (PLATFORMS c)]"
  using assms
  by (simp add: async_setup_entry_def init_doorbird_device_def Let_def hass_data_emit
        new_effects_def emit_def split: prod.splits)

theorem setup_success_stores_one_entry_witness:
  "async_setup_entry example_const example_lib example_hass example_entry =
     (Inr True,
      \<lparr>hass_data = Some example_loaded_data,
       trace = [StartMonitoring (device example_session), RegistryStore ''a1b2c3'',
                ForwardEntrySetups ''a1b2c3'' [''camera'']]\<rparr>)"
proof -
  have h1: "hass_data example_hass = Some example_domain_data"
    by (simp add: example_hass_def)
  have h2: "ready example_lib (entry_device example_entry) = Inr (True, 200)"
    by (simp add: example_lib_def)
  have h3: "fst (True, 200 :: int)"
    by simp
  have h4: "info example_lib (entry_device example_entry) = Inr example_info"
    by (simp add: example_lib_def)
  from setup_success_stores_one_entry [OF h1 h2 h3 h4, of example_const]
  show ?thesis
    by (auto simp: new_effects_def example_hass_def example_entry_def example_const_def
          example_loaded_data_def example_domain_data_def example_registry_entry_def
          example_session_def)
qed

text \<open>
  Claim C10. Whenever setup fails at the handshake, for any reason (a 401, a transport
  error, another HTTP error, any other exception, or a not-ready status), the run does
  not return \<^verbatim>\<open>True\<close>, the device's \<^verbatim>\<open>start_monitoring\<close> is never invoked, so that no
  event or error callback is registered, and the shared registry is left exactly as it
  was.
\<close>

theorem failed_setup_is_atomic:
  assumes "(\<exists>e. init_doorbird_device lib (entry_device entry) = Inl e) \<or>
           (\<exists>status dinfo. init_doorbird_device lib (entry_device entry) = Inr (status, dinfo) \<and>
              \<not> fst status)"
  shows "fst (async_setup_entry c lib hass entry) \<noteq> Inr True \<and>
         hass_data (snd (async_setup_entry c lib hass entry)) = hass_data hass \<and>
         (\<forall>d. StartMonitoring d \<notin> set (new_effects hass (snd (async_setup_entry c lib hass entry))))"
  using assms
  by (auto simp: async_setup_entry_def Let_def hass_data_emit new_effects_emit new_effects_refl
        split: exn.splits if_splits)

theorem failed_setup_is_atomic_witness:
  "new_effects example_hass
     (snd (async_setup_entry example_const example_lib_unauthorized example_hass example_entry))
     = [LogError ''Authorization rejected by DoorBird for %s@%s''
          [PyStr ''ghabcd0001'', PyStr ''192.168.1.5'']] \<and>
   hass_data (snd (async_setup_entry example_const example_lib_unauthorized example_hass example_entry))
     = hass_data example_hass \<and>
   (\<forall>d. StartMonitoring d \<notin> set (new_effects example_hass
      (snd (async_setup_entry example_const example_lib_unauthorized example_hass example_entry)))) \<and>
   (\<forall>d. StartMonitoring d \<notin> set (new_effects example_hass
      (snd (async_setup_entry example_const example_lib_not_ready example_hass example_entry))))"
proof -
  have unauthorized: "init_doorbird_device example_lib_unauthorized (entry_device example_entry)
                        = Inl (HTTPError 401)"
    by (simp add: init_doorbird_device_def example_lib_unauthorized_def example_lib_def)
  have not_ready: "init_doorbird_device example_lib_not_ready (entry_device example_entry)
                     = Inr ((False, 200), example_info)"
    by (simp add: init_doorbird_device_def example_lib_not_ready_def example_lib_def)
  have run: "new_effects example_hass
       (snd (async_setup_entry example_const example_lib_unauthorized example_hass example_entry))
     = [LogError ''Authorization rejected by DoorBird for %s@%s''
          [PyStr ''ghabcd0001'', PyStr ''192.168.1.5'']]"
    using unauthorized
    by (simp add: async_setup_entry_def Let_def new_effects_emit example_entry_def)
  from unauthorized not_ready run
    failed_setup_is_atomic [of example_lib_unauthorized example_entry example_const example_hass]
    failed_setup_is_atomic [of example_lib_not_ready example_entry example_const example_hass]
  show ?thesis by simp
qed

section \<open>Properties of the event callback\<close>

text \<open>
  Claim C4. For every event name \<open>ev\<close> handed to the event callback (with the
  EntityIdIndex in place), exactly one event is published on the bus; its topic is
  exactly the domain, an underscore and \<open>ev\<close>, and its payload contains all four URL
  fields (\<^verbatim>\<open>live_video_url\<close>, \<^verbatim>\<open>live_image_url\<close>, \<^verbatim>\<open>rtsp_live_video_url\<close>,
  \<^verbatim>\<open>html5_viewer_url\<close>), each read from the session's device client at the time of
  the event, and a timestamp that is a well-formed ISO-8601 UTC time: it reads back as
  the time of the event.
\<close>

theorem notify_event_topic_and_payload:
  assumes "hass_data hass = Some dd" and "event_entity_ids dd = Some ids"
      and "valid_datetime utcnow"
  shows "\<exists>payload ts.
           fst (async_notify_event c lib utcnow ds hass ev) = Inr () \<and>
           new_effects hass (snd (async_notify_event c lib utcnow ds hass ev)) =
             [Print (''FIRING EVENT: '' @ ev), BusFire (DOMAIN c @ ''_'' @ ev) payload] \<and>
           payload ''live_video_url'' = Some (PyStr (live_video_url lib (device ds))) \<and>
           payload ''live_image_url'' = Some (PyStr (live_image_url lib (device ds))) \<and>
           payload ''rtsp_live_video_url'' = Some (PyStr (rtsp_live_video_url lib (device ds))) \<and>
           payload ''html5_viewer_url'' = Some (PyStr (html5_viewer_url lib (device ds))) \<and>
           payload ''timestamp'' = Some (PyStr ts) \<and> parse_iso8601_utc ts = Some utcnow"
proof -
  let ?payload = "(get_event_data lib utcnow ds)(ATTR_ENTITY_ID \<mapsto> dict_get ids ev)"
  have fields: "?payload ''live_video_url'' = Some (PyStr (live_video_url lib (device ds)))"
    "?payload ''live_image_url'' = Some (PyStr (live_image_url lib (device ds)))"
    "?payload ''rtsp_live_video_url'' = Some (PyStr (rtsp_live_video_url lib (device ds)))"
    "?payload ''html5_viewer_url'' = Some (PyStr (html5_viewer_url lib (device ds)))"
    "?payload ''timestamp'' = Some (PyStr (isoformat utcnow))"
    by (simp_all add: get_event_data_fields ATTR_ENTITY_ID_def)
  have run: "fst (async_notify_event c lib utcnow ds hass ev) = Inr ()"
    "new_effects hass (snd (async_notify_event c lib utcnow ds hass ev)) =
       [Print (''FIRING EVENT: '' @ ev), BusFire (DOMAIN c @ ''_'' @ ev) ?payload]"
    by (simp_all add: async_notify_event_fires [OF assms(1,2)] new_effects_def emit_def)
  from run fields parse_isoformat [OF assms(3)] show ?thesis by blast
qed

theorem notify_event_topic_and_payload_witness:
  "\<exists>payload.
     new_effects example_hass
       (snd (async_notify_event example_const example_lib example_now example_session
               example_hass ''doorbell'')) =
       [Print ''FIRING EVENT: doorbell'', BusFire ''doorbird_doorbell'' payload] \<and>
     payload ''live_video_url'' = Some (PyStr ''http://192.168.1.5/bha-api/video.cgi'') \<and>
     payload ''live_image_url'' = Some (PyStr ''http://192.168.1.5/bha-api/image.cgi'') \<and>
     payload ''rtsp_live_video_url'' = Some (PyStr ''rtsp://192.168.1.5/mpeg/media.amp'') \<and>
     payload ''html5_viewer_url'' = Some (PyStr ''http://192.168.1.5/bha-api/view.html'') \<and>
     (\<exists>ts. payload ''timestamp'' = Some (PyStr ts) \<and> parse_iso8601_utc ts = Some example_now)"
proof -
  have h1: "hass_data example_hass = Some example_domain_data"
    by (simp add: example_hass_def)
  have h2: "event_entity_ids example_domain_data = Some example_ids"
    by (simp add: example_domain_data_def)
  have h3: "valid_datetime example_now"
    by (simp add: valid_datetime_def example_now_def)
  from notify_event_topic_and_payload [OF h1 h2 h3, of example_const example_lib example_session "''doorbell''"]
  show ?thesis
    by (auto simp: example_const_def example_lib_def example_session_def)
qed

text \<open>
  Claim C5, as the code has it. In the published event payload the entity-id field is
  always attached (with the EntityIdIndex in place): its value is the one the
  EntityIdIndex holds for the event name, and \<^verbatim>\<open>None\<close> when the event name has no
  mapping there. The field is not left out of the payload in that case.
\<close>

theorem notify_event_entity_id_always_attached:
  assumes "hass_data hass = Some dd" and "event_entity_ids dd = Some ids"
  shows "\<exists>payload.
           new_effects hass (snd (async_notify_event c lib utcnow ds hass ev)) =
             [Print (''FIRING EVENT: '' @ ev), BusFire (DOMAIN c @ ''_'' @ ev) payload] \<and>
           payload ATTR_ENTITY_ID = Some (case ids ev of Some entity \<Rightarrow> entity | None \<Rightarrow> PyNone)"
proof -
  let ?payload = "(get_event_data lib utcnow ds)(ATTR_ENTITY_ID \<mapsto> dict_get ids ev)"
  have "new_effects hass (snd (async_notify_event c lib utcnow ds hass ev)) =
       [Print (''FIRING EVENT: '' @ ev), BusFire (DOMAIN c @ ''_'' @ ev) ?payload]"
    by (simp add: async_notify_event_fires [OF assms] new_effects_def emit_def)
  moreover have "?payload ATTR_ENTITY_ID = Some (case ids ev of Some entity \<Rightarrow> entity | None \<Rightarrow> PyNone)"
    by (simp add: dict_get_def dict_get_default_def)
  ultimately show ?thesis by blast
qed

theorem notify_event_entity_id_always_attached_witness:
  "\<exists>payload.
     new_effects example_hass
       (snd (async_notify_event example_const example_lib example_now example_session
               example_hass ''motionsensor'')) =
       [Print ''FIRING EVENT: motionsensor'', BusFire ''doorbird_motionsensor'' payload] \<and>
     payload ATTR_ENTITY_ID = Some (PyStr ''binary_sensor.front_door_motion'')"
proof -
  have h1: "hass_data example_hass = Some example_domain_data"
    by (simp add: example_hass_def)
  have h2: "event_entity_ids example_domain_data = Some example_ids"
    by (simp add: example_domain_data_def)
  from notify_event_entity_id_always_attached
         [OF h1 h2, of example_const example_lib example_now example_session "''motionsensor''"]
  show ?thesis
    by (simp add: example_const_def example_ids_def)
qed

text \<open>
  The claim as stated fails: the example index has no mapping for the doorbell, and the
  payload of the event fired for it has the entity-id field, holding \<^verbatim>\<open>None\<close>.
\<close>

theorem notify_unmapped_entity_id_counterexample:
  "example_ids ''doorbell'' = None \<and>
   payload_field ATTR_ENTITY_ID
     (last (trace (snd (async_notify_event example_const example_lib example_now example_session
                          example_hass ''doorbell'')))) = Some PyNone"
  by (simp add: async_notify_event_def Let_def example_hass_def example_domain_data_def
        example_ids_def emit_def dict_get_def dict_get_default_def)

section \<open>Properties of the logbook describer\<close>



section \<open>Properties of unload\<close>

text \<open>
  Claim C7, as the code has it. Calling unload with an entry id for which no
  RegistryEntry exists in the registry changes nothing, in the registry or elsewhere
  (no monitor is stopped, nothing is delegated to the host), but it does not return:
  it raises \<^verbatim>\<open>KeyError\<close> for the entry id.
\<close>

theorem unload_without_entry_raises_and_changes_nothing:
  assumes "hass_data hass = Some dd" and "entries dd (entry_id entry) = None"
  shows "async_unload_entry c unload_platforms hass entry = (Inl (KeyError (entry_id entry)), hass)"
  using assms by (simp add: async_unload_entry_def)

theorem unload_without_entry_raises_and_changes_nothing_witness:
  "async_unload_entry example_const example_unload_failed example_hass example_entry =
     (Inl (KeyError ''a1b2c3''), example_hass)"
proof -
  have h1: "hass_data example_hass = Some example_domain_data"
    by (simp add: example_hass_def)
  have h2: "entries example_domain_data (entry_id example_entry) = None"
    by (simp add: example_domain_data_def)
  from unload_without_entry_raises_and_changes_nothing
         [OF h1 h2, of example_const example_unload_failed]
  show ?thesis
    by (simp add: example_entry_def)
qed

text \<open>
  The claim as stated fails: the example registry has no entry for the id, and unload
  raises.
\<close>

theorem unload_without_entry_counterexample:
  "entries example_domain_data (entry_id example_entry) = None \<and>
   fst (async_unload_entry example_const example_unload_ok example_hass example_entry)
     = Inl (KeyError ''a1b2c3'')"
  by (simp add: async_unload_entry_def example_hass_def example_domain_data_def example_entry_def)

text \<open>
  Claim C8. During the unload of an entry that is in the registry, the session's
  monitor is stopped first, then the unload of the sub-entities is delegated, and only
  after both can the RegistryEntry be removed; it is removed if and only if the
  delegated unload reports success, which is also what unload returns. When the
  delegation reports failure the registry is left as it was.
\<close>

theorem unload_stops_monitor_then_removes_iff_unloaded:
  assumes "hass_data hass = Some dd" and "entries dd (entry_id entry) = Some reg"
  shows "fst (async_unload_entry c unload_platforms hass entry) = Inr (unload_platforms entry (PLATFORMS c)) \<and>
         new_effects hass (snd (async_unload_entry c unload_platforms hass entry)) =
           [StopMonitoring (device (DOOR_STATION reg)), UnloadPlatforms (entry_id entry) (PLATFORMS c)] @
           (if unload_platforms entry (PLATFORMS c) then [RegistryPop (entry_id entry)] else []) \<and>
         hass_data (snd (async_unload_entry c unload_platforms hass entry)) =
           Some (if unload_platforms entry (PLATFORMS c)
                 then dd\<lparr>entries := (entries dd)(entry_id entry := None)\<rparr> else dd)"
  using assms by (simp add: async_unload_entry_def Let_def new_effects_def emit_def)

theorem unload_stops_monitor_then_removes_iff_unloaded_witness:
  "async_unload_entry example_const example_unload_ok example_loaded_hass example_entry =
     (Inr True,
      \<lparr>hass_data = Some example_domain_data,
       trace = [StopMonitoring (device example_session), UnloadPlatforms ''a1b2c3'' [''camera''],
                RegistryPop ''a1b2c3'']\<rparr>) \<and>
   async_unload_entry example_const example_unload_failed example_loaded_hass example_entry =
     (Inr False,
      \<lparr>hass_data = Some example_loaded_data,
       trace = [StopMonitoring (device example_session), UnloadPlatforms ''a1b2c3'' [''camera'']]\<rparr>)"
proof -
  have h1: "hass_data example_loaded_hass = Some example_loaded_data"
    by (simp add: example_loaded_hass_def)
  have h2: "entries example_loaded_data (entry_id example_entry) = Some example_registry_entry"
    by (simp add: example_loaded_data_def example_entry_def)
  from unload_stops_monitor_then_removes_iff_unloaded [OF h1 h2, of example_const example_unload_ok]
       unload_stops_monitor_then_removes_iff_unloaded [OF h1 h2, of example_const example_unload_failed]
  show ?thesis
    by (simp add: async_unload_entry_def Let_def emit_def example_loaded_hass_def
          example_loaded_data_def example_domain_data_def example_entry_def example_const_def
          example_registry_entry_def example_unload_ok_def example_unload_failed_def)
qed

section \<open>Properties of util.py\<close>

text \<open>
  Claim C9. For every DeviceInfo map that contains at least one of the two MAC-address
  keys, \<open>get_mac_address_from_doorstation_info\<close> returns (it does not raise) the value
  stored under \<^verbatim>\<open>"PRIMARY_MAC_ADDR"\<close>, the wired key, when that key is present, and
  otherwise the value stored under \<^verbatim>\<open>"WIFI_MAC_ADDR"\<close>, the wireless key.
\<close>

theorem mac_address_prefers_primary:
  assumes "''PRIMARY_MAC_ADDR'' \<in> dom doorstation_info \<or> ''WIFI_MAC_ADDR'' \<in> dom doorstation_info"
  shows "\<exists>mac. get_mac_address_from_doorstation_info doorstation_info = Inr mac \<and>
           (case doorstation_info ''PRIMARY_MAC_ADDR'' of
              Some wired \<Rightarrow> mac = wired
            | None \<Rightarrow> doorstation_info ''WIFI_MAC_ADDR'' = Some mac)"
  using assms
  by (auto simp: get_mac_address_from_doorstation_info_def getitem_def split: option.splits)

theorem mac_address_prefers_primary_witness:
  "get_mac_address_from_doorstation_info
      [''WIFI_MAC_ADDR'' \<mapsto> PyStr ''1CCAE3700001'', ''PRIMARY_MAC_ADDR'' \<mapsto> PyStr ''1CCAE3700000'']
     = Inr (PyStr ''1CCAE3700000'')
   \<and> get_mac_address_from_doorstation_info [''WIFI_MAC_ADDR'' \<mapsto> PyStr ''1CCAE3700001'']
     = Inr (PyStr ''1CCAE3700001'')"
  using mac_address_prefers_primary
          [of "[''WIFI_MAC_ADDR'' \<mapsto> PyStr ''1CCAE3700001'', ''PRIMARY_MAC_ADDR'' \<mapsto> PyStr ''1CCAE3700000'']"]
        mac_address_prefers_primary [of "[''WIFI_MAC_ADDR'' \<mapsto> PyStr ''1CCAE3700001'']"]
  by simp

end
